theory Spec2Isabelle
  imports Main "HOL-Library.Sublist"
begin

section \<open>Python values, strings and paths\<close>

text \<open>
  The platform file \<^verbatim>\<open>Platforms/EEBBK/s6Pkg/DeviceBuild.py\<close> is Python. Its strings are
  modelled as \<^typ>\<open>string\<close>; the few places where values of different Python types meet
  (a tuple compared with a string, \<^verbatim>\<open>None\<close> stored in the build variables) use the
  type \<open>pyval\<close>, on which HOL equality is Python's \<^verbatim>\<open>==\<close>.
\<close>

datatype pyval = PNone | PStr string | PTuple "pyval list"

text \<open>\<^verbatim>\<open>sub in s\<close> on strings: \<open>sub\<close> occurs in \<open>s\<close> as a contiguous block.\<close>

primrec str_contains :: "string \<Rightarrow> string \<Rightarrow> bool" where
  "str_contains sub [] = (sub = [])"
| "str_contains sub (c # cs) = (prefix sub (c # cs) \<or> str_contains sub cs)"

text \<open>\<^verbatim>\<open>x in xs\<close> on a list: some element equals \<open>x\<close>.\<close>

definition py_in :: "pyval \<Rightarrow> pyval list \<Rightarrow> bool" where
  "py_in x xs = List.member xs x"

text \<open>
  \<^verbatim>\<open>set(s)\<close> of a string iterates its characters: the elements are the one-character
  strings of \<open>s\<close>.
\<close>

definition str_iter :: "string \<Rightarrow> string list" where
  "str_iter s = map (\<lambda>c. [c]) s"

text \<open>\<^verbatim>\<open>sep.join(xs)\<close>.\<close>

fun str_join :: "string \<Rightarrow> string list \<Rightarrow> string" where
  "str_join sep [] = []"
| "str_join sep [x] = x"
| "str_join sep (x # y # ys) = x @ sep @ str_join sep (y # ys)"

text \<open>
  \<^verbatim>\<open>s.upper()\<close>. The letters \<open>a\<close> to \<open>z\<close> go to \<open>A\<close> to \<open>Z\<close>, every other byte is
  kept; no character outside ASCII upper-cases to an ASCII letter or digit alone, so this
  decides any comparison of \<^verbatim>\<open>s.upper()\<close> with an ASCII literal.
\<close>

definition upper_char :: "char \<Rightarrow> char" where
  "upper_char c =
     (case map_of (zip ''abcdefghijklmnopqrstuvwxyz'' ''ABCDEFGHIJKLMNOPQRSTUVWXYZ'') c of
        Some u \<Rightarrow> u
      | None \<Rightarrow> c)"

definition upper :: "string \<Rightarrow> string" where
  "upper s = map upper_char s"

text \<open>\<^verbatim>\<open>s.rfind(c)\<close>: the index of the last \<open>c\<close> in \<open>s\<close>, or \<open>-1\<close>.\<close>

fun rfind_from :: "char \<Rightarrow> string \<Rightarrow> int \<Rightarrow> int \<Rightarrow> int" where
  "rfind_from c [] i r = r"
| "rfind_from c (x # xs) i r = rfind_from c xs (i + 1) (if x = c then i else r)"

definition rfind :: "char \<Rightarrow> string \<Rightarrow> int" where
  "rfind c s = rfind_from c s 0 (- 1)"

text \<open>
  \<^verbatim>\<open>os.path.splitext\<close> (POSIX): the extension starts at the last dot of the last path
  component, unless that component has only dots before it.
\<close>

definition splitext :: "string \<Rightarrow> string \<times> string" where
  "splitext p =
     (let sepIndex = rfind CHR ''/'' p;
          dotIndex = rfind CHR ''.'' p
      in if dotIndex > sepIndex \<and>
            list_ex (\<lambda>ch. ch \<noteq> CHR ''.'')
              (take (nat (dotIndex - (sepIndex + 1))) (drop (nat (sepIndex + 1)) p))
         then (take (nat dotIndex) p, drop (nat dotIndex) p)
         else (p, []))"

text \<open>\<^verbatim>\<open>os.path.join(a, b)\<close> (POSIX).\<close>

definition os_path_join :: "string \<Rightarrow> string \<Rightarrow> string" where
  "os_path_join a b =
     (if prefix ''/'' b then b
      else if a = [] \<or> last a = CHR ''/'' then a @ b
      else a @ ''/'' @ b)"

text \<open>\<^verbatim>\<open>os.path.dirname(p)\<close> (POSIX).\<close>

definition os_path_dirname :: "string \<Rightarrow> string" where
  "os_path_dirname p =
     (let i = nat (rfind CHR ''/'' p + 1);
          head = take i p
      in if head \<noteq> [] \<and> head \<noteq> replicate (length head) CHR ''/''
         then rev (dropWhile (\<lambda>c. c = CHR ''/'') (rev head))
         else head)"

text \<open>The text of a list of strings inside an f-string (quotes are not escaped).\<close>

definition repr_list :: "string list \<Rightarrow> string" where
  "repr_list xs = ''['' @ str_join '', '' (map (\<lambda>x. [CHR 0x27] @ x @ [CHR 0x27]) xs) @ '']''"

section \<open>Effects: exceptions, the log, the file system, the build variables\<close>

text \<open>
  The exceptions met in the file: the two it raises itself, \<^verbatim>\<open>TypeError\<close> of a call
  with a keyword argument the callee does not have, and the two errors of the operating
  system, besides \<^verbatim>\<open>FileNotFoundError\<close>, that a directory listing ends in. An error of
  the operating system carries the path.
\<close>

datatype exn =
  Exception string
| FileNotFoundError string
| NotADirectoryError string
| PermissionError string
| TypeError string

datatype level = DEBUG | ERROR | CRITICAL

type_synonym log = "(level \<times> string) list"

text \<open>
  The file system is read only, through \<^verbatim>\<open>os.path.isfile\<close>, \<^verbatim>\<open>os.path.exists\<close>,
  \<^verbatim>\<open>os.listdir\<close> and \<^verbatim>\<open>os.getcwd\<close>. A state of it is what these answer. The first two
  answer a truth value on every path; \<^verbatim>\<open>os.listdir\<close> and \<^verbatim>\<open>os.getcwd\<close> answer or raise
  (a path that is no directory, a directory that may not be read, a working directory
  that is gone).
\<close>

record filesystem =
  isfile :: "string \<Rightarrow> bool"
  path_exists :: "string \<Rightarrow> bool"
  listdir :: "string \<Rightarrow> exn + string list"
  getcwd :: "exn + string"

text \<open>
  Modelled from the spec: the build-variable store of edk2toolext
  (\<^verbatim>\<open>shell_environment.GetBuildVars()\<close>, also \<^verbatim>\<open>self.env\<close>) is not part of the
  repository. The spec calls it an external key/value store that this file writes named
  values into and reads back (\<^verbatim>\<open>FD_BASE\<close>, \<^verbatim>\<open>FD_SIZE\<close>, \<^verbatim>\<open>FD_BLOCKS\<close>, the feature
  configuration path). It is a map from the name to the value and the comment given with
  it; \<open>GetValue\<close> answers the default for a name that is not set.
\<close>

type_synonym build_vars = "string \<rightharpoonup> pyval \<times> string"

definition GetValue :: "build_vars \<Rightarrow> string \<Rightarrow> pyval \<Rightarrow> pyval" where
  "GetValue env k dflt = (case env k of None \<Rightarrow> dflt | Some (v, c) \<Rightarrow> v)"

definition SetValue :: "build_vars \<Rightarrow> string \<Rightarrow> pyval \<Rightarrow> string \<Rightarrow> build_vars" where
  "SetValue env k v c = env(k \<mapsto> (v, c))"

section \<open>Common configuration\<close>

text \<open>
  The class attributes of \<^verbatim>\<open>CommonPlatform\<close>. \<^verbatim>\<open>("s6Pkg")\<close> and \<^verbatim>\<open>("AARCH64")\<close> are
  parenthesised strings, not one-element tuples (there is no trailing comma);
  \<^verbatim>\<open>TargetsSupported\<close>, \<^verbatim>\<open>Scopes\<close> and \<^verbatim>\<open>PackagesPath\<close> are tuples.
  \<^verbatim>\<open>WorkspaceRoot\<close> is computed from the location of the file when it is loaded: the
  operations below take it as the argument \<open>WorkspaceRoot\<close>.
\<close>

definition PackagesSupported :: string where
  "PackagesSupported = ''s6Pkg''"

definition ArchSupported :: string where
  "ArchSupported = ''AARCH64''"

definition TargetsSupported :: "string list" where
  "TargetsSupported = [''DEBUG'', ''RELEASE'']"

definition Scopes :: "string list" where
  "Scopes = [''s6'', ''gcc_aarch64_linux'', ''edk2-build'']"

definition DscPath :: string where
  "DscPath = ''s6Pkg/s6.dsc''"

definition PackagesPath :: "string list" where
  "PackagesPath =
     [''Platforms/Lenovo'',
      ''Common/Mu'',
      ''Common/Mu_OEM_Sample'',
      ''Common/Mu_Tiano_Plus'',
      ''Features/DFCI'',
      ''Mu_Basecore'',
      ''Silicon/Arm/Mu_Tiano'',
      ''Silicon/Qualcomm'',
      ''Silicon/Silicium'',
      ''Silicium-ACPI/SoCs/Qualcomm'']"

section \<open>SettingsManager\<close>

definition GetArchitecturesSupported :: string where
  "GetArchitecturesSupported = ArchSupported"

subsection \<open>GetRequiredSubmodules\<close>

text \<open>
  Modelled from the spec: the class \<^verbatim>\<open>RequiredSubmodule\<close> of edk2toolext is not part of
  the repository. The spec's descriptor of a required submodule holds a relative path, an
  optional flag and a recursive flag. A flag is \<open>None\<close> when the call leaves it to the
  constructor.
\<close>

record RequiredSubmodule =
  path :: string
  optional :: "bool option"
  recursive :: "bool option"

text \<open>
  What the constructor does with a call is not in the repository either: it is the
  parameter \<open>new\<close> of the operation, which takes the positional path and the keyword
  arguments of a call and answers the object or raises.
\<close>

type_synonym constructor = "string \<Rightarrow> (string \<times> bool) list \<Rightarrow> exn + RequiredSubmodule"

text \<open>
  Modelled from the spec: the constructor of the spec's descriptor, which has the
  parameters \<^verbatim>\<open>optional\<close> and \<^verbatim>\<open>recursive\<close> and keeps what it is given.
\<close>

definition descriptor :: constructor where
  "descriptor p kwargs =
     Inr \<lparr>path = p, optional = map_of kwargs ''optional'', recursive = map_of kwargs ''recursive''\<rparr>"

text \<open>
  For comparison, a constructor with the parameters \<^verbatim>\<open>path\<close> and \<^verbatim>\<open>recursive\<close> only: as
  every Python callable it raises \<^verbatim>\<open>TypeError\<close> on a keyword argument that is none of
  its parameters.
\<close>

definition path_recursive_only :: constructor where
  "path_recursive_only p kwargs =
     (case filter (\<lambda>kv. fst kv \<noteq> ''recursive'') kwargs of
        [] \<Rightarrow> Inr \<lparr>path = p, optional = None, recursive = map_of kwargs ''recursive''\<rparr>
      | kv # rest \<Rightarrow>
          Inl (TypeError (''RequiredSubmodule.__init__() got an unexpected keyword argument ''
                 @ [CHR 0x27] @ fst kv @ [CHR 0x27])))"

text \<open>The eight constructor calls of the list display, in its order.\<close>

definition required_calls :: "(string \<times> (string \<times> bool) list) list" where
  "required_calls =
     [(''Binaries'', [(''optional'', True), (''recursive'', False)]),
      (''Common/Mu'', [(''optional'', True)]),
      (''Common/Mu_OEM_Sample'', [(''optional'', True)]),
      (''Common/Mu_Tiano_Plus'', [(''optional'', True)]),
      (''Features/DFCI'', [(''optional'', True)]),
      (''Mu_Basecore'', [(''optional'', True)]),
      (''Silicon/Arm/Mu_Tiano'', [(''optional'', True)]),
      (''Silicium-ACPI'', [(''optional'', True)])]"

text \<open>A list display evaluates its elements from the left; the first call that raises ends it.\<close>

fun construct_all ::
  "constructor \<Rightarrow> (string \<times> (string \<times> bool) list) list \<Rightarrow> exn + RequiredSubmodule list" where
  "construct_all new [] = Inr []"
| "construct_all new (call # calls) =
     (case new (fst call) (snd call) of
        Inl e \<Rightarrow> Inl e
      | Inr submodule \<Rightarrow>
          (case construct_all new calls of
             Inl e \<Rightarrow> Inl e
           | Inr rest \<Rightarrow> Inr (submodule # rest)))"

text \<open>The loop over the submodules: it only reads the file system and writes the log.\<close>

fun check_submodules :: "filesystem \<Rightarrow> string \<Rightarrow> RequiredSubmodule list \<Rightarrow> log \<Rightarrow> log" where
  "check_submodules fs workspace [] lg = lg"
| "check_submodules fs workspace (submodule # rest) lg =
     (let sub_path = os_path_join workspace (path submodule)
      in check_submodules fs workspace rest
           (if \<not> path_exists fs sub_path
              then lg @ [(ERROR, ''Submodule path missing: '' @ sub_path)]
            else if \<not> path_exists fs (os_path_join sub_path ''.git'')
              then lg @ [(ERROR, ''Submodule not initialized: '' @ sub_path)]
            else lg))"

definition GetRequiredSubmodules ::
  "constructor \<Rightarrow> filesystem \<Rightarrow> string \<Rightarrow> log \<Rightarrow> (exn + RequiredSubmodule list) \<times> log" where
  "GetRequiredSubmodules new fs WorkspaceRoot lg =
     (case construct_all new required_calls of
        Inl e \<Rightarrow> (Inl e, lg)
      | Inr required \<Rightarrow> (Inr required, check_submodules fs WorkspaceRoot required lg))"

subsection \<open>SetArchitectures\<close>

text \<open>
  The object's one attribute written here. \<^verbatim>\<open>set(xs) - set(ys)\<close> is kept as the list of
  the distinct elements of \<open>xs\<close> that are not in \<open>ys\<close>; the order in which Python joins
  the elements of a set is not fixed, the model joins them in the order of \<open>xs\<close>.
\<close>

record SettingsManager =
  ActualArchitectures :: "string list option"

definition SetArchitectures ::
  "string list \<Rightarrow> SettingsManager \<Rightarrow> log \<Rightarrow> (exn + SettingsManager) \<times> log" where
  "SetArchitectures list_of_requested_architectures self lg =
     (let unsupported =
            filter (\<lambda>a. \<not> List.member (str_iter GetArchitecturesSupported) a)
              (remdups list_of_requested_architectures)
      in if length unsupported > 0
         then (let errorString = ''Unsupported Architecture Requested: '' @ str_join '' '' unsupported
               in (Inl (Exception errorString), lg @ [(CRITICAL, errorString)]))
         else (Inr (self\<lparr>ActualArchitectures := Some list_of_requested_architectures\<rparr>), lg))"

subsection \<open>FilterPackagesToTest\<close>

text \<open>
  Lists are objects: a variable holds a reference, and two variables may hold the same
  one. The store maps a reference to the list's elements; \<open>nxt\<close> is the next reference
  to hand out, so the references below \<open>nxt\<close> are the lists that exist.
\<close>

record heap =
  cells :: "nat \<Rightarrow> string list"
  nxt :: nat

text \<open>A new list object (\<^verbatim>\<open>[]\<close>, or the result of \<^verbatim>\<open>.copy()\<close>).\<close>

definition alloc :: "string list \<Rightarrow> heap \<Rightarrow> nat \<times> heap" where
  "alloc v h = (nxt h, h\<lparr>cells := (cells h)(nxt h := v), nxt := Suc (nxt h)\<rparr>)"

definition list_copy :: "nat \<Rightarrow> heap \<Rightarrow> nat \<times> heap" where
  "list_copy r h = alloc (cells h r) h"

text \<open>
  The loop over the changed files. It returns what \<^verbatim>\<open>build_these_packages\<close> refers to
  when the loop ends: the reference it started with, or \<^verbatim>\<open>possible_packages\<close> after a
  \<^verbatim>\<open>break\<close>. \<^verbatim>\<open>os.path.splitext(f)\<close> is a pair, and the pair itself is looked for
  in the list of the two extension strings. The first \<^verbatim>\<open>break\<close> is under both tests on
  \<^verbatim>\<open>BaseTools\<close>; a path that fails either of them goes on to the test on the name of the
  pipeline file.
\<close>

fun scan_changed :: "string list \<Rightarrow> nat \<Rightarrow> nat \<Rightarrow> nat" where
  "scan_changed [] build_these_packages possible_packages = build_these_packages"
| "scan_changed (f # fs) build_these_packages possible_packages =
     (if str_contains ''BaseTools'' f \<and>
         \<not> py_in (PTuple [PStr (fst (splitext f)), PStr (snd (splitext f))])
              [PStr ''.txt'', PStr ''.md'']
        then possible_packages
      else if str_contains ''platform-build-run-steps.yml'' f
        then possible_packages
      else scan_changed fs build_these_packages possible_packages)"

definition FilterPackagesToTest :: "nat \<Rightarrow> nat \<Rightarrow> heap \<Rightarrow> nat \<times> heap" where
  "FilterPackagesToTest changedFilesList potentialPackagesList h =
     (let (build_these_packages, h1) = alloc [] h;
          (possible_packages, h2) = list_copy potentialPackagesList h1
      in (scan_changed (cells h2 changedFilesList) build_these_packages possible_packages, h2))"

text \<open>
  The call on two lists given by their elements: the caller's lists are the objects \<open>0\<close>
  and \<open>1\<close> of a store that holds nothing else, and the result is read through the
  reference that comes back.
\<close>

definition lists_heap :: "string list \<Rightarrow> string list \<Rightarrow> heap" where
  "lists_heap changed packages = \<lparr>cells = (\<lambda>r. [])(0 := changed, 1 := packages), nxt = 2\<rparr>"

definition filter_packages :: "string list \<Rightarrow> string list \<Rightarrow> string list" where
  "filter_packages changed packages =
     (let (r, h) = FilterPackagesToTest 0 1 (lists_heap changed packages) in cells h r)"

text \<open>
  The selection as the specification words it, for comparison with the code: all
  candidates when some changed path contains \<^verbatim>\<open>BaseTools\<close> and its extension is neither
  \<^verbatim>\<open>.txt\<close> nor \<^verbatim>\<open>.md\<close>, or contains \<^verbatim>\<open>platform-build-run-steps.yml\<close>; no package
  otherwise.
\<close>

definition spec_selects :: "string \<Rightarrow> bool" where
  "spec_selects f =
     (str_contains ''BaseTools'' f \<and> \<not> List.member [''.txt'', ''.md''] (snd (splitext f))
      \<or> str_contains ''platform-build-run-steps.yml'' f)"

definition spec_filter_packages :: "string list \<Rightarrow> string list \<Rightarrow> string list" where
  "spec_filter_packages changed packages = (if list_ex spec_selects changed then packages else [])"

subsection \<open>GetPlatformDscAndConfig\<close>

text \<open>
  The arguments of a logging call are evaluated before the line is written: when
  \<^verbatim>\<open>os.getcwd()\<close> or \<^verbatim>\<open>os.listdir(...)\<close> inside the f-string raises, the line is not
  logged and the exception leaves the function, ahead of its own \<^verbatim>\<open>raise\<close>.
\<close>

definition GetPlatformDscAndConfig ::
  "filesystem \<Rightarrow> string \<Rightarrow> log \<Rightarrow> (exn + string \<times> (string \<rightharpoonup> pyval)) \<times> log" where
  "GetPlatformDscAndConfig fs WorkspaceRoot lg =
     (let dsc_path = os_path_join WorkspaceRoot DscPath
      in if \<not> isfile fs dsc_path
         then (let lg1 = lg @ [(ERROR, ''DSC file not found at: '' @ dsc_path)]
               in case getcwd fs of
                    Inl e \<Rightarrow> (Inl e, lg1)
                  | Inr cwd \<Rightarrow>
                      (let lg2 = lg1 @ [(ERROR, ''Current directory: '' @ cwd)]
                       in if path_exists fs (os_path_dirname dsc_path)
                          then (case listdir fs (os_path_dirname dsc_path) of
                                  Inl e \<Rightarrow> (Inl e, lg2)
                                | Inr names \<Rightarrow>
                                    (Inl (FileNotFoundError (''DSC file missing: '' @ dsc_path)),
                                     lg2 @ [(ERROR, ''Directory contents: '' @ repr_list names)]))
                          else (Inl (FileNotFoundError (''DSC file missing: '' @ dsc_path)), lg2)))
         else (Inr (DscPath, Map.empty), lg))"

section \<open>PlatformBuilder\<close>

subsection \<open>Command line options\<close>

text \<open>
  \<^verbatim>\<open>AddCommandLineOptions\<close> declares \<^verbatim>\<open>-a\<close>/\<^verbatim>\<open>--arch\<close> with the destination
  \<^verbatim>\<open>build_arch\<close> and the default \<^verbatim>\<open>AARCH64\<close>: \<open>given\<close> is the value on the command line,
  if there is one.
\<close>

record options =
  build_arch :: string

definition AddCommandLineOptions :: "string option \<Rightarrow> options" where
  "AddCommandLineOptions given =
     \<lparr>build_arch = (case given of None \<Rightarrow> ''AARCH64'' | Some a \<Rightarrow> a)\<rparr>"

definition RetrieveCommandLineOptions :: "options \<Rightarrow> exn + unit" where
  "RetrieveCommandLineOptions args =
     (if upper (build_arch args) \<noteq> ''AARCH64''
      then Inl (Exception
        ''Invalid Arch Specified.  Please see comments in DeviceBuild.py::PlatformBuilder::AddCommandLineOptions'')
      else Inr ())"

subsection \<open>GetPackagesPath\<close>

text \<open>The loop appends the elements of \<^verbatim>\<open>CommonPlatform.PackagesPath\<close> one by one.\<close>

fun append_all :: "pyval list \<Rightarrow> string list \<Rightarrow> pyval list" where
  "append_all result [] = result"
| "append_all result (a # as) = append_all (result @ [PStr a]) as"

definition GetPackagesPath :: "build_vars \<Rightarrow> pyval list" where
  "GetPackagesPath env =
     (let result = [GetValue env ''FEATURE_CONFIG_PATH'' (PStr [])]
      in append_all result PackagesPath)"

subsection \<open>SetPlatformEnv\<close>

definition SetPlatformEnv ::
  "filesystem \<Rightarrow> string \<Rightarrow> build_vars \<Rightarrow> log \<Rightarrow> (exn + int \<times> build_vars) \<times> log" where
  "SetPlatformEnv fs WorkspaceRoot env lg =
     (let lg0 = lg @ [(DEBUG, ''PlatformBuilder SetPlatformEnv'')];
          workspace = WorkspaceRoot;
          dsc_path = os_path_join workspace DscPath
      in if \<not> isfile fs dsc_path
         then (let lg1 = lg0 @ [(CRITICAL, ''DSC file not found: '' @ dsc_path)]
               in case getcwd fs of
                    Inl e \<Rightarrow> (Inl e, lg1)
                  | Inr cwd \<Rightarrow>
                      (let lg2 = lg1 @ [(CRITICAL, ''Current directory: '' @ cwd)]
                       in case (if path_exists fs workspace
                                then (case listdir fs workspace of
                                        Inl e \<Rightarrow> Inl e
                                      | Inr names \<Rightarrow>
                                          Inr (lg2 @ [(CRITICAL, ''Workspace contents: '' @
                                                 repr_list names)]))
                                else Inr lg2) of
                            Inl e \<Rightarrow> (Inl e, lg2)
                          | Inr lg3 \<Rightarrow>
                              (case (if path_exists fs (os_path_join workspace ''s6Pkg'')
                                     then (case listdir fs (os_path_join workspace ''s6Pkg'') of
                                             Inl e \<Rightarrow> Inl e
                                           | Inr names \<Rightarrow>
                                               Inr (lg3 @ [(CRITICAL, ''s6Pkg contents: '' @
                                                      repr_list names)]))
                                     else Inr lg3) of
                                 Inl e \<Rightarrow> (Inl e, lg3)
                               | Inr lg4 \<Rightarrow>
                                   (Inl (FileNotFoundError ''Critical DSC file missing''), lg4))))
         else
           (let e1 = SetValue env ''PRODUCT_NAME'' (PStr ''s6'') ''Platform Hardcoded'';
                e2 = SetValue e1 ''ACTIVE_PLATFORM'' (PStr DscPath) ''Platform Hardcoded'';
                e3 = SetValue e2 ''TARGET_ARCH'' (PStr ''AARCH64'') ''Platform Hardcoded'';
                e4 = SetValue e3 ''TOOL_CHAIN_TAG'' (PStr ''CLANGPDB'') ''set default to clangpdb'';
                e5 = SetValue e4 ''EMPTY_DRIVE'' (PStr ''FALSE'') ''Default to false'';
                e6 = SetValue e5 ''RUN_TESTS'' (PStr ''FALSE'') ''Default to false'';
                e7 = SetValue e6 ''SHUTDOWN_AFTER_RUN'' (PStr ''FALSE'') ''Default to false'';
                e8 = SetValue e7 ''BLD_*_BUILDID_STRING'' (PStr ''Unknown'') ''Default'';
                e9 = SetValue e8 ''BUILDREPORTING'' (PStr ''TRUE'') ''Enabling build report'';
                e10 = SetValue e9 ''BUILDREPORT_TYPES''
                        (PStr ''PCD DEPEX FLASH BUILD_FLAGS LIBRARY FIXED_ADDRESS HASH'')
                        ''Setting build report types'';
                e11 = SetValue e10 ''BLD_*_MEMORY_PROTECTION'' (PStr ''TRUE'') ''Default'';
                e12 = SetValue e11 ''BLD_*_SHIP_MODE'' (PStr ''FALSE'') ''Default'';
                e13 = SetValue e12 ''BLD_*_FD_BASE'' (GetValue e12 ''FD_BASE'' PNone) ''Default'';
                e14 = SetValue e13 ''BLD_*_FD_SIZE'' (GetValue e13 ''FD_SIZE'' PNone) ''Default'';
                e15 = SetValue e14 ''BLD_*_FD_BLOCKS'' (GetValue e14 ''FD_BLOCKS'' PNone) ''Default''
            in (Inr (0, e15), lg0)))"

subsection \<open>The order of a platform build\<close>


section \<open>The command line entry point\<close>

text \<open>
  The parser has two \<^verbatim>\<open>store_true\<close> actions in one mutually exclusive group, each with
  two option strings, and no help option.
\<close>

datatype action = Update | Setup

definition option_string_actions :: "(string \<times> action) list" where
  "option_string_actions =
     [(''--update'', Update), (''--UPDATE'', Update), (''--setup'', Setup), (''--SETUP'', Setup)]"

record namespace =
  args_update :: bool
  args_setup :: bool

text \<open>
  How \<^verbatim>\<open>argparse\<close> reads one argument string for this parser: not as an option
  (\<open>Positional\<close>: it is left among the remaining arguments), as one of the two actions
  with the text after an \<open>=\<close> if there is one, or as an abbreviation that fits option
  strings of both actions. An option string is recognised when it is written out, when it
  is written out before an \<open>=\<close>, and when the argument starts with two dashes and is, up
  to an \<open>=\<close>, the beginning of exactly one option string.
\<close>

datatype optional = Positional | Act action "string option" | Ambiguous

definition split_eq :: "string \<Rightarrow> string \<times> string option" where
  "split_eq arg =
     (if List.member arg CHR ''=''
      then (takeWhile (\<lambda>c. c \<noteq> CHR ''='') arg, Some (tl (dropWhile (\<lambda>c. c \<noteq> CHR ''='') arg)))
      else (arg, None))"

definition get_option_tuples :: "string \<Rightarrow> optional list" where
  "get_option_tuples arg =
     (if prefix ''--'' arg
      then map (\<lambda>(s, a). Act a (snd (split_eq arg)))
             (filter (\<lambda>(s, a). prefix (fst (split_eq arg)) s) option_string_actions)
      else [])"

definition parse_optional :: "string \<Rightarrow> optional" where
  "parse_optional arg =
     (if arg = [] then Positional
      else if hd arg \<noteq> CHR ''-'' then Positional
      else case map_of option_string_actions arg of
        Some a \<Rightarrow> Act a None
      | None \<Rightarrow>
          if length arg = 1 then Positional
          else case (if List.member arg CHR ''=''
                     then map_of option_string_actions (fst (split_eq arg)) else None) of
            Some a \<Rightarrow> Act a (snd (split_eq arg))
          | None \<Rightarrow>
              (let option_tuples = get_option_tuples arg
               in if length option_tuples > 1 then Ambiguous
                  else if length option_tuples = 1 then hd option_tuples
                  else Positional))"

text \<open>
  \<^verbatim>\<open>parse_known_args\<close> over the arguments after the program name. Everything from a
  \<^verbatim>\<open>--\<close> on is left among the remaining arguments. An error of the parser ends the
  process with status \<open>2\<close>: an ambiguous abbreviation, a value given to a flag, or a flag
  of the group after the other one.
\<close>

fun consume_args :: "string list \<Rightarrow> namespace \<Rightarrow> string list \<Rightarrow> int + namespace \<times> string list" where
  "consume_args [] ns extras = Inr (ns, extras)"
| "consume_args (arg # rest) ns extras =
     (if arg = ''--'' then Inr (ns, extras @ arg # rest)
      else case parse_optional arg of
        Positional \<Rightarrow> consume_args rest ns (extras @ [arg])
      | Ambiguous \<Rightarrow> Inl 2
      | Act a (Some explicit_arg) \<Rightarrow> Inl 2
      | Act Update None \<Rightarrow>
          if args_setup ns then Inl 2
          else consume_args rest (ns\<lparr>args_update := True\<rparr>) extras
      | Act Setup None \<Rightarrow>
          if args_update ns then Inl 2
          else consume_args rest (ns\<lparr>args_setup := True\<rparr>) extras)"

definition parse_known_args :: "string list \<Rightarrow> int + namespace \<times> string list" where
  "parse_known_args argv = consume_args argv \<lparr>args_update = False, args_setup = False\<rparr> []"

text \<open>
  The three invocables are edk2toolext's. What \<^verbatim>\<open>Invoke()\<close> does with the argument
  vector it finds is the parameter \<open>Invoke\<close>: it returns, raises an exception, or ends the
  process itself. A run of the entry point is the list of the invocables called, with
  the argument vector each one saw, the log lines of the entry point, and the exit
  status of the process.
\<close>

datatype invocable = Edk2PlatformSetup | Edk2Update | Edk2PlatformBuild

datatype invoke_result = Returns | Raises exn | Exits int

record run =
  invoked :: "(invocable \<times> string list) list"
  logged :: log
  exit_status :: int

definition call_invocable ::
  "(invocable \<Rightarrow> string list \<Rightarrow> invoke_result) \<Rightarrow> invocable \<Rightarrow> string list \<Rightarrow> string \<Rightarrow> run" where
  "call_invocable Invoke i argv failure =
     (case Invoke i argv of
        Returns \<Rightarrow> \<lparr>invoked = [(i, argv)], logged = [], exit_status = 0\<rparr>
      | Raises e \<Rightarrow> \<lparr>invoked = [(i, argv)], logged = [(ERROR, failure)], exit_status = 1\<rparr>
      | Exits n \<Rightarrow> \<lparr>invoked = [(i, argv)], logged = [], exit_status = n\<rparr>)"

definition main ::
  "(invocable \<Rightarrow> string list \<Rightarrow> invoke_result) \<Rightarrow> string \<Rightarrow> string list \<Rightarrow> run" where
  "main Invoke SCRIPT_PATH argv =
     (case parse_known_args argv of
        Inl status \<Rightarrow> \<lparr>invoked = [], logged = [], exit_status = status\<rparr>
      | Inr (args, remaining) \<Rightarrow>
          (let new_args = [''stuart'', ''-c'', SCRIPT_PATH] @ remaining
           in if args_setup args
                then call_invocable Invoke Edk2PlatformSetup new_args ''Setup failed with exception''
              else if args_update args
                then call_invocable Invoke Edk2Update new_args ''Update failed with exception''
              else call_invocable Invoke Edk2PlatformBuild new_args ''Build failed with exception''))"

section \<open>Auxiliary notions for the statements\<close>

text \<open>
  What the test in the loop of \<^verbatim>\<open>FilterPackagesToTest\<close> comes to for one changed path
  (shown below as \<open>scan_changed_eq\<close>).
\<close>

definition touches_build :: "string \<Rightarrow> bool" where
  "touches_build f =
     (str_contains ''BaseTools'' f \<or> str_contains ''platform-build-run-steps.yml'' f)"

text \<open>
  The lines the specification asks for one required submodule: an error when its path is
  missing, an error when the path is there and its \<^verbatim>\<open>.git\<close> entry is not, nothing
  otherwise.
\<close>

definition submodule_errors :: "filesystem \<Rightarrow> string \<Rightarrow> RequiredSubmodule \<Rightarrow> log" where
  "submodule_errors fs workspace submodule =
     (if \<not> path_exists fs (os_path_join workspace (path submodule))
        then [(ERROR, ''Submodule path missing: '' @ os_path_join workspace (path submodule))]
      else if \<not> path_exists fs (os_path_join (os_path_join workspace (path submodule)) ''.git'')
        then [(ERROR, ''Submodule not initialized: '' @ os_path_join workspace (path submodule))]
      else [])"

text \<open>The eight descriptors the constructor of the spec's descriptor makes of the calls.\<close>

definition required_descriptors :: "RequiredSubmodule list" where
  "required_descriptors =
     [\<lparr>path = ''Binaries'', optional = Some True, recursive = Some False\<rparr>,
      \<lparr>path = ''Common/Mu'', optional = Some True, recursive = None\<rparr>,
      \<lparr>path = ''Common/Mu_OEM_Sample'', optional = Some True, recursive = None\<rparr>,
      \<lparr>path = ''Common/Mu_Tiano_Plus'', optional = Some True, recursive = None\<rparr>,
      \<lparr>path = ''Features/DFCI'', optional = Some True, recursive = None\<rparr>,
      \<lparr>path = ''Mu_Basecore'', optional = Some True, recursive = None\<rparr>,
      \<lparr>path = ''Silicon/Arm/Mu_Tiano'', optional = Some True, recursive = None\<rparr>,
      \<lparr>path = ''Silicium-ACPI'', optional = Some True, recursive = None\<rparr>]"

text \<open>
  A file system for examples: the regular files are those of \<open>files\<close>, the directories
  \<^verbatim>\<open>/ws\<close> and \<^verbatim>\<open>/ws/s6Pkg\<close> exist and list as empty, no other path can be listed.
\<close>

definition example_fs :: "string list \<Rightarrow> filesystem" where
  "example_fs files =
     \<lparr>isfile = (\<lambda>p. List.member files p),
      path_exists = (\<lambda>p. List.member files p \<or> p = ''/ws'' \<or> p = ''/ws/s6Pkg''),
      listdir = (\<lambda>p. if p = ''/ws'' \<or> p = ''/ws/s6Pkg'' then Inr []
                      else if List.member files p then Inl (NotADirectoryError p)
                      else Inl (FileNotFoundError p)),
      getcwd = Inr ''/ws''\<rparr>"


text \<open>
  A file system in which \<^verbatim>\<open>/ws/s6Pkg\<close> is a directory that holds this file and may be
  entered but not read: listing it fails.
\<close>

definition unreadable_s6Pkg_fs :: filesystem where
  "unreadable_s6Pkg_fs =
     \<lparr>isfile = (\<lambda>p. p = ''/ws/s6Pkg/DeviceBuild.py''),
      path_exists = (\<lambda>p. p = ''/ws'' \<or> p = ''/ws/s6Pkg'' \<or> p = ''/ws/s6Pkg/DeviceBuild.py''),
      listdir = (\<lambda>p. if p = ''/ws'' then Inr [''s6Pkg'']
                      else if p = ''/ws/s6Pkg'' then Inl (PermissionError p)
                      else Inl (FileNotFoundError p)),
      getcwd = Inr ''/ws''\<rparr>"

section \<open>Paths and strings\<close>

lemma str_contains_sublist: "str_contains sub s = sublist sub s"
  by (induction s) (auto simp: sublist_Cons_right)

lemma splitext_readme: "splitext ''BaseTools/readme.md'' = (''BaseTools/readme'', ''.md'')"
  by (simp add: splitext_def rfind_def)

lemma splitext_hidden: "splitext ''a.b/.bashrc'' = (''a.b/.bashrc'', [])"
  by (simp add: splitext_def rfind_def)

lemma dsc_path_example: "os_path_join ''/ws'' DscPath = ''/ws/s6Pkg/s6.dsc''"
  by (simp add: os_path_join_def DscPath_def)

lemma dirname_example: "os_path_dirname ''/ws/s6Pkg/s6.dsc'' = ''/ws/s6Pkg''"
  by (simp add: os_path_dirname_def rfind_def)

section \<open>SetArchitectures\<close>

text \<open>
  A request is accepted exactly when each of its elements is one of the characters of
  \<^verbatim>\<open>"AARCH64"\<close>: the supported architectures are a string, and \<^verbatim>\<open>set\<close> of a string is the
  set of its characters.
\<close>

lemma SetArchitectures_accepts_iff:
  "(\<exists>self'. fst (SetArchitectures req self lg) = Inr self')
     \<longleftrightarrow> set req \<subseteq> set (str_iter ''AARCH64'')"
  by (auto simp: SetArchitectures_def GetArchitecturesSupported_def ArchSupported_def Let_def
      filter_empty_conv)

lemma SetArchitectures_default_request:
  "SetArchitectures (str_iter GetArchitecturesSupported) self lg =
     (Inr (self\<lparr>ActualArchitectures := Some [''A'', ''A'', ''R'', ''C'', ''H'', ''6'', ''4'']\<rparr>), lg)"
  by (simp add: SetArchitectures_def GetArchitecturesSupported_def ArchSupported_def
      str_iter_def Let_def)

lemma SetArchitectures_X64:
  "fst (SetArchitectures [''X64''] self lg) =
     Inl (Exception ''Unsupported Architecture Requested: X64'')"
  by (simp add: SetArchitectures_def GetArchitecturesSupported_def ArchSupported_def
      str_iter_def Let_def)

lemma SetArchitectures_AARCH64_X64:
  "\<exists>m. fst (SetArchitectures [''AARCH64'', ''X64''] self lg) = Inl (Exception m)"
  by (simp add: SetArchitectures_def GetArchitecturesSupported_def ArchSupported_def
      str_iter_def Let_def)

text \<open>
  C1. The claim: the request \<^verbatim>\<open>["AARCH64"]\<close> is accepted and recorded. The code raises
  on it: \<^verbatim>\<open>"AARCH64"\<close> is not one of the characters of the supported string, so it is
  unsupported, the error is logged as critical and \<^verbatim>\<open>Exception\<close> is raised.
\<close>

theorem SetArchitectures_AARCH64_raises:
  "SetArchitectures [''AARCH64''] self lg =
     (Inl (Exception ''Unsupported Architecture Requested: AARCH64''),
      lg @ [(CRITICAL, ''Unsupported Architecture Requested: AARCH64'')])"
  by (simp add: SetArchitectures_def GetArchitecturesSupported_def ArchSupported_def
      str_iter_def Let_def)

section \<open>FilterPackagesToTest\<close>

text \<open>A pair is never one of two strings: the extension test of the loop always passes.\<close>

lemma tuple_not_in_strings: "\<not> py_in (PTuple xs) [PStr a, PStr b]"
  by (simp add: py_in_def)

lemma scan_changed_eq:
  "scan_changed fs b p = (if list_ex touches_build fs then p else b)"
  by (induction fs) (auto simp: tuple_not_in_strings touches_build_def)

lemma FilterPackagesToTest_eq:
  "FilterPackagesToTest c p h =
     (if list_ex touches_build
           (((cells h)(nxt h := [], Suc (nxt h) := ((cells h)(nxt h := [])) p)) c)
      then Suc (nxt h) else nxt h,
      \<lparr>cells = (cells h)(nxt h := [], Suc (nxt h) := ((cells h)(nxt h := [])) p),
       nxt = Suc (Suc (nxt h))\<rparr>)"
  by (simp add: FilterPackagesToTest_def alloc_def list_copy_def scan_changed_eq)

text \<open>
  The result as a list: all candidates when some changed path contains \<^verbatim>\<open>BaseTools\<close> or
  \<^verbatim>\<open>platform-build-run-steps.yml\<close>, whatever its extension, and no package otherwise.
\<close>

lemma filter_packages_eq:
  "filter_packages changed packages = (if list_ex touches_build changed then packages else [])"
  by (simp add: filter_packages_def FilterPackagesToTest_eq lists_heap_def)

lemma filter_packages_foo_c:
  "filter_packages [''BaseTools/foo.c''] [''PkgA'', ''PkgB''] = [''PkgA'', ''PkgB'']"
  by (simp add: filter_packages_eq touches_build_def)

lemma filter_packages_unrelated: "filter_packages [''unrelated/file.c''] packages = []"
  by (simp add: filter_packages_eq touches_build_def)

text \<open>Whatever the specification's wording selects, the code selects.\<close>

lemma spec_selected_is_selected:
  "list_ex spec_selects changed \<Longrightarrow> filter_packages changed packages = packages"
  by (auto simp: filter_packages_eq list_ex_iff spec_selects_def touches_build_def)

lemma spec_filter_packages_le:
  "spec_filter_packages changed packages = packages
     \<Longrightarrow> filter_packages changed packages = packages"
proof (cases "list_ex spec_selects changed")
  case True
  then show ?thesis by (rule spec_selected_is_selected)
next
  case False
  assume "spec_filter_packages changed packages = packages"
  with False have "packages = []" by (simp add: spec_filter_packages_def)
  then show ?thesis by (simp add: filter_packages_eq)
qed

text \<open>
  C2. The claim: with the changed files \<^verbatim>\<open>["BaseTools/readme.md"]\<close> no package is
  selected. The code selects every candidate: the path contains \<^verbatim>\<open>BaseTools\<close>, and the
  pair \<^verbatim>\<open>("BaseTools/readme", ".md")\<close> is not an element of \<^verbatim>\<open>[".txt", ".md"]\<close>.
\<close>

theorem FilterPackagesToTest_readme_md_selects_all:
  "filter_packages [''BaseTools/readme.md''] [''PkgA'', ''PkgB''] = [''PkgA'', ''PkgB'']"
  by (simp add: filter_packages_def FilterPackagesToTest_def alloc_def list_copy_def
      lists_heap_def py_in_def)

text \<open>
  C5. The claim: the result is the candidate list when some changed path contains
  \<^verbatim>\<open>BaseTools\<close> with an extension other than \<^verbatim>\<open>.txt\<close> and \<^verbatim>\<open>.md\<close>, or contains
  \<^verbatim>\<open>platform-build-run-steps.yml\<close>, and the empty list otherwise. On the changed files
  \<^verbatim>\<open>["BaseTools/notes.txt"]\<close> the claim gives the empty list and the code gives all
  candidates.
\<close>

theorem FilterPackagesToTest_notes_txt_differs:
  "filter_packages [''BaseTools/notes.txt''] [''PkgA'', ''PkgB''] = [''PkgA'', ''PkgB'']
   \<and> spec_filter_packages [''BaseTools/notes.txt''] [''PkgA'', ''PkgB''] = []"
  by (simp add: filter_packages_eq touches_build_def spec_filter_packages_def spec_selects_def
      splitext_def rfind_def)

text \<open>
  C9. For lists \<open>c\<close> (the changed files) and \<open>p\<close> (the candidates) that exist in the
  store, the call changes no list that existed before it, so neither of its arguments;
  the reference it returns is none of the two arguments; it refers either to the new
  empty list or to the copy made of the candidates, whose elements are those of \<open>p\<close>;
  and a non-empty result is that copy.
\<close>

theorem FilterPackagesToTest_frame:
  assumes "c < nxt h" and "p < nxt h"
    and "FilterPackagesToTest c p h = (r, h')"
  shows "(\<forall>a. a < nxt h \<longrightarrow> cells h' a = cells h a)
       \<and> r \<noteq> c \<and> r \<noteq> p
       \<and> (r = nxt h \<and> cells h' r = [] \<or> r = Suc (nxt h) \<and> cells h' r = cells h p)
       \<and> (cells h' r \<noteq> [] \<longrightarrow> r = fst (list_copy p (snd (alloc [] h))))"
  using assms
  by (auto simp: FilterPackagesToTest_eq list_copy_def alloc_def split: if_splits)

text \<open>
  The same at a concrete store: the changed files are the list \<open>0\<close>, the candidates the
  list \<open>1\<close>; the result is the list \<open>3\<close>, the copy.
\<close>

theorem FilterPackagesToTest_frame_witness:
  "FilterPackagesToTest 0 1 (lists_heap [''BaseTools/foo.c''] [''PkgA'']) =
     (3, \<lparr>cells = (\<lambda>r. [])(0 := [''BaseTools/foo.c''], 1 := [''PkgA''], 2 := [], 3 := [''PkgA'']),
          nxt = 4\<rparr>)
   \<and> cells (snd (FilterPackagesToTest 0 1 (lists_heap [''BaseTools/foo.c''] [''PkgA'']))) 0
       = [''BaseTools/foo.c'']
   \<and> cells (snd (FilterPackagesToTest 0 1 (lists_heap [''BaseTools/foo.c''] [''PkgA'']))) 1
       = [''PkgA'']
   \<and> fst (FilterPackagesToTest 0 1 (lists_heap [''BaseTools/foo.c''] [''PkgA''])) = 3"
  using FilterPackagesToTest_frame
    [of 0 "lists_heap [''BaseTools/foo.c''] [''PkgA'']" 1
       "fst (FilterPackagesToTest 0 1 (lists_heap [''BaseTools/foo.c''] [''PkgA'']))"
       "snd (FilterPackagesToTest 0 1 (lists_heap [''BaseTools/foo.c''] [''PkgA'']))"]
  by (simp add: FilterPackagesToTest_eq lists_heap_def touches_build_def numeral_3_eq_3
      eval_nat_numeral)

section \<open>GetRequiredSubmodules\<close>

text \<open>
  What the call returns or raises is what the eight constructor calls give: the file
  system, the workspace root and the log have no part in it.
\<close>

lemma GetRequiredSubmodules_value:
  "fst (GetRequiredSubmodules new fs ws lg) = construct_all new required_calls"
  by (simp add: GetRequiredSubmodules_def split: sum.splits)

lemma construct_all_descriptor: "construct_all descriptor required_calls = Inr required_descriptors"
  by (simp add: required_calls_def descriptor_def required_descriptors_def)

lemma required_descriptors_length: "length required_descriptors = 8"
  by (simp add: required_descriptors_def)

text \<open>
  The loop appends, submodule after submodule, the lines the specification asks for; each
  is of level \<open>ERROR\<close>, and there are as many as there are submodules that fail a check.
\<close>

lemma check_submodules_eq:
  "check_submodules fs ws subs lg = lg @ concat (map (submodule_errors fs ws) subs)"
  by (induction subs arbitrary: lg) (simp_all add: Let_def submodule_errors_def)

lemma submodule_errors_level: "list_all (\<lambda>e. fst e = ERROR) (submodule_errors fs ws s)"
  by (simp add: submodule_errors_def)

lemma submodule_errors_all_level:
  "list_all (\<lambda>e. fst e = ERROR) (concat (map (submodule_errors fs ws) subs))"
  by (induction subs) (simp_all add: submodule_errors_level)

lemma submodule_errors_count:
  "length (concat (map (submodule_errors fs ws) subs)) =
     length (filter (\<lambda>s. submodule_errors fs ws s \<noteq> []) subs)"
  by (induction subs) (simp_all add: submodule_errors_def)

text \<open>
  C6. With the constructor of the spec's descriptor, in every state of the file system,
  from every workspace root, the call returns (it does not raise) the list of the eight
  descriptors. A submodule whose path is missing, or whose path has no \<^verbatim>\<open>.git\<close> entry,
  gets its line of level \<open>ERROR\<close> in the log, in the order of the list; nothing else is
  written, and the list returned is the same.
\<close>

theorem GetRequiredSubmodules_fixed:
  "GetRequiredSubmodules descriptor fs WorkspaceRoot lg =
     (Inr required_descriptors,
      lg @ concat (map (submodule_errors fs WorkspaceRoot) required_descriptors))
   \<and> length required_descriptors = 8
   \<and> list_all (\<lambda>e. fst e = ERROR)
        (concat (map (submodule_errors fs WorkspaceRoot) required_descriptors))
   \<and> length (concat (map (submodule_errors fs WorkspaceRoot) required_descriptors)) =
       length (filter (\<lambda>s. submodule_errors fs WorkspaceRoot s \<noteq> []) required_descriptors)"
  by (simp add: GetRequiredSubmodules_def construct_all_descriptor check_submodules_eq
      required_descriptors_length submodule_errors_all_level submodule_errors_count)

text \<open>
  A state in which \<^verbatim>\<open>Binaries\<close> is missing and \<^verbatim>\<open>Mu_Basecore\<close> has no \<^verbatim>\<open>.git\<close> entry: the
  two lines, and the same list.
\<close>

lemma GetRequiredSubmodules_example:
  "GetRequiredSubmodules descriptor
     \<lparr>isfile = (\<lambda>p. False),
      path_exists = (\<lambda>p. p \<noteq> ''/ws/Binaries'' \<and> p \<noteq> ''/ws/Mu_Basecore/.git''),
      listdir = (\<lambda>p. Inr []), getcwd = Inr ''/ws''\<rparr> ''/ws'' []
   = (Inr required_descriptors,
      [(ERROR, ''Submodule path missing: /ws/Binaries''),
       (ERROR, ''Submodule not initialized: /ws/Mu_Basecore'')])"
  by (simp add: GetRequiredSubmodules_def construct_all_descriptor)
     (simp add: required_descriptors_def os_path_join_def Let_def)

text \<open>
  With a constructor that has no parameter \<^verbatim>\<open>optional\<close> the first call of the list
  display raises, in every state of the file system, and nothing is checked or logged.
\<close>

lemma GetRequiredSubmodules_unexpected_keyword:
  "GetRequiredSubmodules path_recursive_only fs ws lg =
     (Inl (TypeError (''RequiredSubmodule.__init__() got an unexpected keyword argument '' @
            [CHR 0x27] @ ''optional'' @ [CHR 0x27])), lg)"
  by (simp add: GetRequiredSubmodules_def required_calls_def path_recursive_only_def)

section \<open>GetPlatformDscAndConfig\<close>




text \<open>The lines logged before the exception, the listing of the directory among them.\<close>

lemma GetPlatformDscAndConfig_missing_log:
  "snd (GetPlatformDscAndConfig (example_fs []) ''/ws'' []) =
     [(ERROR, ''DSC file not found at: /ws/s6Pkg/s6.dsc''),
      (ERROR, ''Current directory: /ws''),
      (ERROR, ''Directory contents: []'')]"
  by (simp add: example_fs_def os_path_join_def DscPath_def GetPlatformDscAndConfig_def Let_def
      os_path_dirname_def rfind_def repr_list_def)

text \<open>
  When the working directory and the directory of the path can be read, the exception is
  \<^verbatim>\<open>FileNotFoundError\<close> exactly when the path is not a file.
\<close>

lemma GetPlatformDscAndConfig_readable:
  "getcwd fs = Inr cwd \<Longrightarrow>
   listdir fs (os_path_dirname (os_path_join WorkspaceRoot DscPath)) = Inr names \<Longrightarrow>
   (\<exists>m. fst (GetPlatformDscAndConfig fs WorkspaceRoot lg) = Inl (FileNotFoundError m))
     \<longleftrightarrow> \<not> isfile fs (os_path_join WorkspaceRoot DscPath)"
  by (simp add: GetPlatformDscAndConfig_def Let_def)

section \<open>PlatformBuilder\<close>




lemma RetrieveCommandLineOptions_X64:
  "\<exists>m. RetrieveCommandLineOptions (AddCommandLineOptions (Some ''X64'')) = Inl (Exception m)"
  by (simp add: RetrieveCommandLineOptions_def AddCommandLineOptions_def upper_def
      upper_char_def)

text \<open>
  C10. The result is the value of the build variable \<^verbatim>\<open>FEATURE_CONFIG_PATH\<close>, the empty
  string when it is not set, followed by the ten package paths in the order of their
  declaration.
\<close>

theorem GetPackagesPath_result:
  "GetPackagesPath env =
     (case env ''FEATURE_CONFIG_PATH'' of None \<Rightarrow> PStr [] | Some (v, c) \<Rightarrow> v) #
     map PStr
       [''Platforms/Lenovo'', ''Common/Mu'', ''Common/Mu_OEM_Sample'', ''Common/Mu_Tiano_Plus'',
        ''Features/DFCI'', ''Mu_Basecore'', ''Silicon/Arm/Mu_Tiano'', ''Silicon/Qualcomm'',
        ''Silicon/Silicium'', ''Silicium-ACPI/SoCs/Qualcomm'']
   \<and> length (GetPackagesPath env) = 11
   \<and> tl (GetPackagesPath env) = map PStr PackagesPath"
  by (simp add: GetPackagesPath_def GetValue_def PackagesPath_def)

lemma GetPackagesPath_after_set:
  "hd (GetPackagesPath (SetValue env ''FEATURE_CONFIG_PATH'' v c)) = v"
  by (simp add: GetPackagesPath_def GetValue_def SetValue_def PackagesPath_def)




text \<open>The flash geometry is passed through, \<^verbatim>\<open>None\<close> when it is not set.\<close>

lemma SetPlatformEnv_fd_base:
  "isfile fs (os_path_join WorkspaceRoot DscPath) \<Longrightarrow>
   fst (SetPlatformEnv fs WorkspaceRoot env lg) = Inr (rc, env') \<Longrightarrow>
   GetValue env' ''BLD_*_FD_BASE'' PNone = GetValue env ''FD_BASE'' PNone"
  by (auto simp: SetPlatformEnv_def Let_def GetValue_def SetValue_def)

text \<open>The same where \<^verbatim>\<open>/ws/s6Pkg\<close> is a directory that may not be read.\<close>

lemma GetPlatformDscAndConfig_unreadable:
  "fst (GetPlatformDscAndConfig unreadable_s6Pkg_fs ''/ws'' []) =
     Inl (PermissionError ''/ws/s6Pkg'')"
  by (simp add: GetPlatformDscAndConfig_def unreadable_s6Pkg_fs_def os_path_join_def DscPath_def
      os_path_dirname_def rfind_def Let_def)

lemma SetPlatformEnv_unreadable:
  "fst (SetPlatformEnv unreadable_s6Pkg_fs ''/ws'' env []) = Inl (PermissionError ''/ws/s6Pkg'')"
  by (simp add: SetPlatformEnv_def unreadable_s6Pkg_fs_def os_path_join_def DscPath_def Let_def)

section \<open>The command line entry point\<close>

lemma parse_optional_setup: "parse_optional ''--setup'' = Act Setup None"
  by (simp add: parse_optional_def option_string_actions_def)

lemma parse_optional_update: "parse_optional ''--update'' = Act Update None"
  by (simp add: parse_optional_def option_string_actions_def)

lemma parse_optional_abbreviation: "parse_optional ''--upd'' = Act Update None"
  by (simp add: parse_optional_def option_string_actions_def get_option_tuples_def split_eq_def)

lemma parse_optional_unknown: "parse_optional ''--verbose'' = Positional"
  by (simp add: parse_optional_def option_string_actions_def get_option_tuples_def split_eq_def)

text \<open>
  Once both flags have been met, in the namespace or written out ahead of any \<^verbatim>\<open>--\<close>,
  the parser ends in an error: by induction on the arguments, for any namespace that
  does not hold both.
\<close>

lemma consume_both_rejected:
  "args_setup ns \<or> ''--setup'' \<in> set (takeWhile (\<lambda>a. a \<noteq> ''--'') argv) \<Longrightarrow>
   args_update ns \<or> ''--update'' \<in> set (takeWhile (\<lambda>a. a \<noteq> ''--'') argv) \<Longrightarrow>
   \<not> (args_setup ns \<and> args_update ns) \<Longrightarrow>
   consume_args argv ns extras = Inl 2"
proof (induction argv arbitrary: ns extras)
  case Nil
  then show ?case by auto
next
  case (Cons arg rest)
  show ?case
  proof (cases "arg = ''--''")
    case True
    with Cons.prems show ?thesis by auto
  next
    case False
    show ?thesis
    proof (cases "parse_optional arg")
      case Positional
      with False Cons.prems have "arg \<noteq> ''--setup''" "arg \<noteq> ''--update''"
        using parse_optional_setup parse_optional_update by auto
      with False Cons.prems Positional show ?thesis
        by (auto intro!: Cons.IH)
    next
      case Ambiguous
      with False show ?thesis by simp
    next
      case (Act a e)
      show ?thesis
      proof (cases e)
        case (Some x)
        with Act False show ?thesis by (cases a) simp_all
      next
        case None
        show ?thesis
        proof (cases a)
          case Update
          with Act None have ne: "arg \<noteq> ''--setup''"
            using parse_optional_setup by auto
          show ?thesis
          proof (cases "args_setup ns")
            case True
            with Act None Update False show ?thesis by simp
          next
            case nset: False
            have "consume_args rest (ns\<lparr>args_update := True\<rparr>) extras = Inl 2"
              using Cons.prems False ne nset by (intro Cons.IH) auto
            with Act None Update False nset show ?thesis by simp
          qed
        next
          case Setup
          with Act None have ne: "arg \<noteq> ''--update''"
            using parse_optional_update by auto
          show ?thesis
          proof (cases "args_update ns")
            case True
            with Act None Setup False show ?thesis by simp
          next
            case nupd: False
            have "consume_args rest (ns\<lparr>args_setup := True\<rparr>) extras = Inl 2"
              using Cons.prems False ne nupd by (intro Cons.IH) auto
            with Act None Setup False nupd show ?thesis by simp
          qed
        qed
      qed
    qed
  qed
qed

text \<open>
  What follows a \<^verbatim>\<open>--\<close> is not read as options: on \<^verbatim>\<open>--setup -- --update\<close> the one
  mode flag given is \<^verbatim>\<open>--setup\<close>, the string after \<^verbatim>\<open>--\<close> is left among the remaining
  arguments, and the set-up invocable is called.
\<close>

lemma main_update_after_separator:
  "List.member [''--setup'', ''--'', ''--update''] ''--setup''
   \<and> List.member [''--setup'', ''--'', ''--update''] ''--update''
   \<and> map fst (invoked (main (\<lambda>i a. Returns) ''DeviceBuild.py'' [''--setup'', ''--'', ''--update'']))
       = [Edk2PlatformSetup]
   \<and> exit_status (main (\<lambda>i a. Returns) ''DeviceBuild.py'' [''--setup'', ''--'', ''--update'']) = 0"
  by (simp add: main_def parse_known_args_def parse_optional_def option_string_actions_def
      call_invocable_def)

text \<open>
  C8. When \<^verbatim>\<open>--setup\<close> and \<^verbatim>\<open>--update\<close> are both given on the command line as options,
  that is ahead of any \<^verbatim>\<open>--\<close>, the parser rejects the invocation: the process ends with
  status \<open>2\<close> and none of the three invocables has been called, whatever they would do
  and whatever else is on the command line.
\<close>

theorem main_rejects_setup_with_update:
  assumes "''--setup'' \<in> set (takeWhile (\<lambda>a. a \<noteq> ''--'') argv)"
    and "''--update'' \<in> set (takeWhile (\<lambda>a. a \<noteq> ''--'') argv)"
  shows "main Invoke SCRIPT_PATH argv = \<lparr>invoked = [], logged = [], exit_status = 2\<rparr>"
  using assms consume_both_rejected [of "\<lparr>args_update = False, args_setup = False\<rparr>" argv "[]"]
  by (simp add: main_def parse_known_args_def)

theorem main_rejects_setup_with_update_witness:
  "main (\<lambda>i a. Returns) ''DeviceBuild.py'' [''--setup'', ''-v'', ''--update'', ''--'', ''x'']
     = \<lparr>invoked = [], logged = [], exit_status = 2\<rparr>"
  using main_rejects_setup_with_update
    [of "[''--setup'', ''-v'', ''--update'', ''--'', ''x'']" "\<lambda>i a. Returns" "''DeviceBuild.py''"]
  by simp

text \<open>The same for the upper-case option strings and for abbreviations.\<close>

lemma main_rejects_aliases:
  "main Invoke ''DeviceBuild.py'' [''--UPDATE'', ''--SETUP'']
     = \<lparr>invoked = [], logged = [], exit_status = 2\<rparr>
   \<and> main Invoke ''DeviceBuild.py'' [''--set'', ''TARGET=DEBUG'', ''--upd'']
     = \<lparr>invoked = [], logged = [], exit_status = 2\<rparr>"
  by (simp add: main_def parse_known_args_def parse_optional_def option_string_actions_def
      get_option_tuples_def split_eq_def)

text \<open>The three modes, and an exception of an invocable turned into the status \<open>1\<close>.\<close>

lemma main_default_build:
  "main (\<lambda>i a. Returns) ''DeviceBuild.py'' [''TARGET=DEBUG'']
     = \<lparr>invoked = [(Edk2PlatformBuild, [''stuart'', ''-c'', ''DeviceBuild.py'', ''TARGET=DEBUG''])],
        logged = [], exit_status = 0\<rparr>"
  by (simp add: main_def parse_known_args_def parse_optional_def option_string_actions_def
      call_invocable_def)

lemma main_update_raises:
  "main (\<lambda>i a. Raises (Exception ''x'')) ''DeviceBuild.py'' [''--UPDATE'']
     = \<lparr>invoked = [(Edk2Update, [''stuart'', ''-c'', ''DeviceBuild.py''])],
        logged = [(ERROR, ''Update failed with exception'')], exit_status = 1\<rparr>"
  by (simp add: main_def parse_known_args_def parse_optional_def option_string_actions_def
      call_invocable_def)

end
